theory Spec2Isabelle
  imports Complex_Main
begin

section \<open>The tuning rules of postgresql\_tune.py\<close>

text \<open>
  The module is Python 2 (\<^verbatim>\<open>config.iteritems()\<close>): \<^verbatim>\<open>/\<close> between two integers is
  floor division, which is \<open>div\<close> on \<open>int\<close>, and \<^verbatim>\<open>%\<close> is \<open>mod\<close>. \<^verbatim>\<open>total_memory\<close>
  is the integer number of bytes that \<^verbatim>\<open>tune\<close> computes, \<^verbatim>\<open>max_connections\<close> an
  integer or \<^verbatim>\<open>None\<close>, \<^verbatim>\<open>db_version\<close> the decimal that \<^verbatim>\<open>float(data["db_version"])\<close>
  reads, taken here as the rational number it denotes.

  \<^verbatim>\<open>math.floor\<close> of an integer gives, in Python 2, the float of the same integer; every
  key that holds such a value goes through \<^verbatim>\<open>int(value)\<close> when it is formatted. The
  model carries these values as integers, which is exact below \<open>2^53\<close>. The only
  fractional values of the configuration are the literals \<^verbatim>\<open>0.7\<close>, \<^verbatim>\<open>0.9\<close> and
  \<^verbatim>\<open>0.5\<close>: \<open>PTenths n\<close> is the float \<open>n / 10\<close>.
\<close>

subsection \<open>Values, errors, dictionaries\<close>

datatype error = KeyError string | ZeroDivisionError

datatype pyval = PInt int | PTenths int

type_synonym config = "string \<rightharpoonup> pyval"

text \<open>\<^verbatim>\<open>d[k]\<close> on a dictionary literal: a missing key raises \<^verbatim>\<open>KeyError\<close>.\<close>

definition getitem :: "(string \<times> 'a) list \<Rightarrow> string \<Rightarrow> error + 'a" where
  "getitem d k = (case map_of d k of None \<Rightarrow> Inl (KeyError k) | Some v \<Rightarrow> Inr v)"

text \<open>An exception leaves the function at once: the rest runs on \<open>Inr\<close> only.\<close>

definition and_then :: "error + 'a \<Rightarrow> ('a \<Rightarrow> error + 'b) \<Rightarrow> error + 'b" where
  "and_then r f = (case r of Inl e \<Rightarrow> Inl e | Inr v \<Rightarrow> f v)"

subsection \<open>Constants\<close>

text \<open>The entries of \<^verbatim>\<open>CONST_SIZE\<close>, each read with a literal key.\<close>

definition KB :: int where "KB = 1024"
definition MB :: int where "MB = 1048576"
definition GB :: int where "GB = 1073741824"
definition TB :: int where "TB = 1099511627776"
definition KB_PER_GB :: int where "KB_PER_GB = 1048576"
definition KB_PER_MB :: int where "KB_PER_MB = 1024"

definition CON_BY_TYPE :: "(string \<times> int) list" where
  "CON_BY_TYPE =
     [(''web'', 200), (''oltp'', 300), (''dw'', 20), (''desktop'', 5), (''mixed'', 100)]"

text \<open>The five keys of \<^verbatim>\<open>CON_BY_TYPE\<close> and of every per-workload table below.\<close>

definition db_types :: "string list" where
  "db_types = [''web'', ''oltp'', ''dw'', ''desktop'', ''mixed'']"

subsection \<open>Decimal strings\<close>

text \<open>\<^verbatim>\<open>"{0}".format(n)\<close> for an integer \<open>n\<close>: its decimal digits, with a sign when negative.\<close>

definition digit_char :: "nat \<Rightarrow> char" where
  "digit_char d = char_of (48 + d)"

function str_nat :: "nat \<Rightarrow> string" where
  "str_nat n = (if n < 10 then [digit_char n] else str_nat (n div 10) @ [digit_char (n mod 10)])"
  by pat_completeness auto
termination
  by (relation "measure id") auto

declare str_nat.simps [simp del]

definition str_int :: "int \<Rightarrow> string" where
  "str_int i = (if i < 0 then CHR ''-'' # str_nat (nat (- i)) else str_nat (nat i))"

text \<open>
  \<^verbatim>\<open>"{0}".format(x)\<close> for the float \<open>x = n / 10\<close>: Python 2 prints twelve significant
  digits, so this is the text for \<open>\<bar>n\<bar> < 10^12\<close>.
\<close>

definition str_tenths :: "int \<Rightarrow> string" where
  "str_tenths n =
     (if n < 0 then ''-'' else '''') @ str_nat (nat \<bar>n\<bar> div 10) @ ''.'' @ str_nat (nat \<bar>n\<bar> mod 10)"

text \<open>Reading a decimal string back, to state that \<open>str_nat\<close> loses nothing.\<close>

definition digit_val :: "char \<Rightarrow> nat" where
  "digit_val c = of_char c - 48"

definition nat_of_str :: "string \<Rightarrow> nat" where
  "nat_of_str s = foldl (\<lambda>acc c. 10 * acc + digit_val c) 0 s"

subsection \<open>postgres\_settings\<close>

text \<open>
  Each value that \<^verbatim>\<open>postgres_settings\<close> stores under a key of \<^verbatim>\<open>config\<close> is one
  function here, named after the key; \<open>postgres_config\<close> below puts them together in
  the order of the source.
\<close>

text \<open>Lines 122--126. \<^verbatim>\<open>not max_connections\<close> holds for \<^verbatim>\<open>None\<close> and for \<open>0\<close>.\<close>

definition config_max_connections :: "string \<Rightarrow> int option \<Rightarrow> error + int" where
  "config_max_connections db_type max_connections =
     (case max_connections of
        None \<Rightarrow> getitem CON_BY_TYPE db_type
      | Some n \<Rightarrow>
          if n = 0 \<or> n < 1 \<or> n > 9999 then getitem CON_BY_TYPE db_type else Inr n)"

text \<open>Lines 132--150; the clamp for Linux is commented out in the source.\<close>

definition config_shared_buffers :: "string \<Rightarrow> string \<Rightarrow> int \<Rightarrow> error + int" where
  "config_shared_buffers os_type db_type memory_in_KB =
     and_then (getitem
        [(''web'', memory_in_KB div 4), (''oltp'', memory_in_KB div 4),
         (''dw'', memory_in_KB div 4), (''desktop'', memory_in_KB div 16),
         (''mixed'', memory_in_KB div 4)] db_type) (\<lambda>shared_buffers.
     Inr (if os_type = ''windows'' \<and> shared_buffers > 512 * MB div KB
          then 512 * MB div KB else shared_buffers))"

text \<open>Lines 152--159.\<close>

definition config_effective_cache_size :: "string \<Rightarrow> int \<Rightarrow> error + int" where
  "config_effective_cache_size db_type memory_in_KB =
     getitem
       [(''web'', memory_in_KB * 3 div 4), (''oltp'', memory_in_KB * 3 div 4),
        (''dw'', memory_in_KB * 3 div 4), (''desktop'', memory_in_KB div 4),
        (''mixed'', memory_in_KB * 3 div 4)] db_type"

text \<open>
  Lines 174--181. \<^verbatim>\<open>work_mem\<close> is a true division when \<^verbatim>\<open>shared_buffers\<close> is the
  float of \<^verbatim>\<open>math.floor\<close>, and a floor division when the Windows clamp has replaced it
  by an integer; the floors taken afterwards make both the same number
  (\<open>work_mem_floor\<close> below).
\<close>

definition config_work_mem :: "string \<Rightarrow> int \<Rightarrow> int \<Rightarrow> int \<Rightarrow> error + int" where
  "config_work_mem db_type memory_in_KB shared_buffers max_connections =
     (if max_connections * 3 = 0 then Inl ZeroDivisionError
      else
        let work_mem =
              (of_int (memory_in_KB - shared_buffers) / of_int (max_connections * 3) :: rat)
        in getitem
             [(''web'', \<lfloor>work_mem\<rfloor>), (''oltp'', \<lfloor>work_mem\<rfloor>),
              (''dw'', \<lfloor>work_mem / 2\<rfloor>), (''desktop'', \<lfloor>work_mem / 6\<rfloor>),
              (''mixed'', \<lfloor>work_mem / 2\<rfloor>)] db_type)"

text \<open>Lines 183--194.\<close>

definition config_maintenance_work_mem :: "string \<Rightarrow> int \<Rightarrow> error + int" where
  "config_maintenance_work_mem db_type memory_in_KB =
     and_then (getitem
        [(''web'', memory_in_KB div 16), (''oltp'', memory_in_KB div 16),
         (''dw'', memory_in_KB div 8), (''desktop'', memory_in_KB div 16),
         (''mixed'', memory_in_KB div 16)] db_type) (\<lambda>maintenance_work_mem.
     Inr (if maintenance_work_mem > 2 * GB div KB then 2 * GB div KB
          else maintenance_work_mem))"

text \<open>
  Lines 128--201: the four memory keys, written only from 256 MB of memory on. The two
  \<^verbatim>\<open>print\<close> statements write a warning to standard output and leave \<^verbatim>\<open>config\<close>
  alone. \<open>mc\<close> is \<^verbatim>\<open>config['max_connections']\<close>, set just before.
\<close>

definition set_memory ::
  "string \<Rightarrow> string \<Rightarrow> int \<Rightarrow> int \<Rightarrow> config \<Rightarrow> error + config" where
  "set_memory os_type db_type total_memory mc config =
     (let memory_in_KB = total_memory div KB in
      if total_memory \<ge> 256 * MB then
        and_then (config_shared_buffers os_type db_type memory_in_KB) (\<lambda>sb.
        and_then (config_effective_cache_size db_type memory_in_KB) (\<lambda>ecs.
        and_then (config_work_mem db_type memory_in_KB sb mc) (\<lambda>wm.
        and_then (config_maintenance_work_mem db_type memory_in_KB) (\<lambda>mwm.
        Inr (config(''shared_buffers'' \<mapsto> PInt sb,
                    ''effective_cache_size'' \<mapsto> PInt ecs,
                    ''work_mem'' \<mapsto> PInt wm,
                    ''maintenance_work_mem'' \<mapsto> PInt mwm))))))
      else Inr config)"

text \<open>Lines 203--226: \<^verbatim>\<open>checkpoint_segments\<close> before 9.5, the two WAL sizes from 9.5 on.\<close>

definition config_checkpoint_segments :: "string \<Rightarrow> error + int" where
  "config_checkpoint_segments db_type =
     getitem [(''web'', 32), (''oltp'', 64), (''dw'', 128), (''desktop'', 3), (''mixed'', 32)]
       db_type"

definition config_min_wal_size :: "string \<Rightarrow> error + int" where
  "config_min_wal_size db_type =
     getitem
       [(''web'', 1024 * MB div KB), (''oltp'', 2048 * MB div KB),
        (''dw'', 4096 * MB div KB), (''desktop'', 100 * MB div KB),
        (''mixed'', 1024 * MB div KB)] db_type"

definition config_max_wal_size :: "string \<Rightarrow> error + int" where
  "config_max_wal_size db_type =
     getitem
       [(''web'', 2048 * MB div KB), (''oltp'', 4096 * MB div KB),
        (''dw'', 8192 * MB div KB), (''desktop'', 100 * MB div KB),
        (''mixed'', 2048 * MB div KB)] db_type"

definition set_wal_size :: "rat \<Rightarrow> string \<Rightarrow> config \<Rightarrow> error + config" where
  "set_wal_size db_version db_type config =
     (if db_version < 9.5 then
        and_then (config_checkpoint_segments db_type) (\<lambda>cs.
        Inr (config(''checkpoint_segments'' \<mapsto> PInt cs)))
      else
        and_then (config_min_wal_size db_type) (\<lambda>min_wal.
        and_then (config_max_wal_size db_type) (\<lambda>max_wal.
        Inr (config(''min_wal_size'' \<mapsto> PInt min_wal, ''max_wal_size'' \<mapsto> PInt max_wal)))))"

text \<open>Lines 228--235.\<close>

definition config_checkpoint_completion_target :: "string \<Rightarrow> error + pyval" where
  "config_checkpoint_completion_target db_type =
     getitem
       [(''web'', PTenths 7), (''oltp'', PTenths 9), (''dw'', PTenths 9),
        (''desktop'', PTenths 5), (''mixed'', PTenths 9)] db_type"

text \<open>
  Lines 241--250, from \<open>wb = floor(3 * shared_buffers / 100)\<close>: the cap at 16 MB, then
  the rounding up of a value between 14 MB and 16 MB.
\<close>

definition config_wal_buffers :: "int \<Rightarrow> int" where
  "config_wal_buffers wb =
     (let wal_buffers = (if wb > 16 * MB div KB then 16 * MB div KB else wb) in
      if 14 * MB div KB < wal_buffers \<and> wal_buffers < 16 * MB div KB then 16 * MB div KB
      else wal_buffers)"

text \<open>
  Line 240: \<^verbatim>\<open>if 'shared_buffers' in config\<close>. For a float \<open>n / 10\<close> (which
  \<open>set_memory\<close> never stores there) the floor of three hundredths is \<open>3 * n div 1000\<close>.
\<close>

definition set_wal_buffers :: "config \<Rightarrow> config" where
  "set_wal_buffers config =
     (case config ''shared_buffers'' of
        None \<Rightarrow> config
      | Some (PInt sb) \<Rightarrow> config(''wal_buffers'' \<mapsto> PInt (config_wal_buffers (3 * sb div 100)))
      | Some (PTenths n) \<Rightarrow>
          config(''wal_buffers'' \<mapsto> PInt (config_wal_buffers (3 * n div 1000))))"

text \<open>Lines 252--259.\<close>

definition config_default_statistics_target :: "string \<Rightarrow> error + int" where
  "config_default_statistics_target db_type =
     getitem
       [(''web'', 100), (''oltp'', 100), (''dw'', 500), (''desktop'', 100), (''mixed'', 100)]
       db_type"

text \<open>The dictionary \<^verbatim>\<open>config\<close> as it stands at line 260, before the values are formatted.\<close>

definition postgres_config ::
  "rat \<Rightarrow> string \<Rightarrow> string \<Rightarrow> int \<Rightarrow> int option \<Rightarrow> error + config" where
  "postgres_config db_version os_type db_type total_memory max_connections =
     and_then (config_max_connections db_type max_connections) (\<lambda>mc.
     and_then (set_memory os_type db_type total_memory mc [''max_connections'' \<mapsto> PInt mc])
       (\<lambda>config.
     and_then (set_wal_size db_version db_type config) (\<lambda>config.
     and_then (config_checkpoint_completion_target db_type) (\<lambda>cct.
     and_then (config_default_statistics_target db_type) (\<lambda>dst.
     Inr ((set_wal_buffers (config(''checkpoint_completion_target'' \<mapsto> cct)))
            (''default_statistics_target'' \<mapsto> PInt dst)))))))"

text \<open>Lines 262--284: the formatter, local to \<^verbatim>\<open>postgres_settings\<close>.\<close>

definition NOT_SIZE_VALUES :: "string list" where
  "NOT_SIZE_VALUES =
     [''max_connections'', ''checkpoint_segments'', ''checkpoint_completion_target'',
      ''default_statistics_target'', ''random_page_cost'', ''seq_page_cost'']"

fun format_value :: "string \<Rightarrow> pyval \<Rightarrow> string" where
  "format_value key (PInt v) =
     (if key \<in> set NOT_SIZE_VALUES then str_int v
      else if v mod KB_PER_GB = 0 then str_int (v div KB_PER_GB) @ ''GB''
      else if v mod KB_PER_MB = 0 then str_int (v div KB_PER_MB) @ ''MB''
      else str_int v @ ''kB'')"
| "format_value key (PTenths n) =
     (if key \<in> set NOT_SIZE_VALUES then str_tenths n
      else if n mod (10 * KB_PER_GB) = 0 then str_int (n div (10 * KB_PER_GB)) @ ''GB''
      else if n mod (10 * KB_PER_MB) = 0 then str_int (n div (10 * KB_PER_MB)) @ ''MB''
      else str_int (if n < 0 then - ((- n) div 10) else n div 10) @ ''kB'')"

text \<open>Line 286: every value of \<^verbatim>\<open>config\<close> formatted under its key.\<close>

definition postgres_settings ::
  "rat \<Rightarrow> string \<Rightarrow> string \<Rightarrow> int \<Rightarrow> int option \<Rightarrow> error + (string \<rightharpoonup> string)" where
  "postgres_settings db_version os_type db_type total_memory max_connections =
     and_then (postgres_config db_version os_type db_type total_memory max_connections)
       (\<lambda>config. Inr (\<lambda>k. map_option (format_value k) (config k)))"

subsection \<open>kernel\_settings\<close>

definition kernel_settings :: "rat \<Rightarrow> string \<Rightarrow> string \<Rightarrow> int \<Rightarrow> (string \<rightharpoonup> int)" where
  "kernel_settings db_version os_type db_type total_memory =
     (if os_type = ''windows'' \<or> db_version > 9.3 then Map.empty
      else let shmall = total_memory div 8192 in
           [''kernel.shmmax'' \<mapsto> shmall * 4096, ''kernel.shmall'' \<mapsto> shmall])"

section \<open>Properties\<close>

subsection \<open>The tables at a known workload\<close>

lemma db_types_cases:
  assumes "t \<in> set db_types"
  obtains "t = ''web''" | "t = ''oltp''" | "t = ''dw''" | "t = ''desktop''" | "t = ''mixed''"
  using assms unfolding db_types_def by auto

lemma and_then_Inr [simp]: "and_then (Inr v) f = f v"
  by (simp add: and_then_def)

lemma and_then_Inl [simp]: "and_then (Inl e) f = Inl e"
  by (simp add: and_then_def)

lemma getitem_valid:
  assumes "t \<in> set db_types"
  shows "getitem [(''web'', a), (''oltp'', b), (''dw'', c), (''desktop'', d), (''mixed'', e)] t =
    Inr (if t = ''web'' then a else if t = ''oltp'' then b else if t = ''dw'' then c
         else if t = ''desktop'' then d else e)"
  using assms by (cases rule: db_types_cases) (simp_all add: getitem_def)


lemma shared_buffers_valid:
  assumes "t \<in> set db_types"
  shows "config_shared_buffers os t mk =
    Inr (if os = ''windows'' \<and> (if t = ''desktop'' then mk div 16 else mk div 4) > 524288
         then 524288 else if t = ''desktop'' then mk div 16 else mk div 4)"
  using assms
  by (cases rule: db_types_cases) (simp_all add: config_shared_buffers_def getitem_def MB_def KB_def)

lemma effective_cache_size_valid:
  assumes "t \<in> set db_types"
  shows "config_effective_cache_size t mk =
    Inr (if t = ''desktop'' then mk div 4 else mk * 3 div 4)"
  using assms
  by (cases rule: db_types_cases) (simp_all add: config_effective_cache_size_def getitem_def)

lemma maintenance_work_mem_valid:
  assumes "t \<in> set db_types"
  shows "config_maintenance_work_mem t mk =
    Inr (min 2097152 (if t = ''dw'' then mk div 8 else mk div 16))"
  using assms
  by (cases rule: db_types_cases)
     (simp_all add: config_maintenance_work_mem_def getitem_def GB_def KB_def min_def)

lemma work_mem_valid:
  assumes "t \<in> set db_types" and "mc \<noteq> 0"
  shows "\<exists>wm. config_work_mem t mk sb mc = Inr wm"
  using assms
  by (simp add: config_work_mem_def Let_def getitem_valid)

lemma max_connections_valid:
  assumes "t \<in> set db_types"
  shows "config_max_connections t mc =
    Inr (case mc of
           None \<Rightarrow>
             if t = ''web'' then 200 else if t = ''oltp'' then 300 else if t = ''dw'' then 20
             else if t = ''desktop'' then 5 else 100
         | Some n \<Rightarrow>
             if 1 \<le> n \<and> n \<le> 9999 then n
             else if t = ''web'' then 200 else if t = ''oltp'' then 300
             else if t = ''dw'' then 20 else if t = ''desktop'' then 5 else 100)"
  using assms
  by (cases rule: db_types_cases)
     (auto simp add: config_max_connections_def getitem_def CON_BY_TYPE_def split: option.split)

lemma max_connections_pos:
  assumes "config_max_connections t mc = Inr n"
  shows "1 \<le> n"
  using assms
  by (auto simp add: config_max_connections_def getitem_def CON_BY_TYPE_def
      split: option.splits if_splits)


lemma max_connections_nonzero:
  assumes "config_max_connections t mc = Inr n"
  shows "n \<noteq> 0"
  using max_connections_pos [OF assms] by simp

lemma checkpoint_segments_valid:
  assumes "t \<in> set db_types"
  shows "config_checkpoint_segments t =
    Inr (if t = ''web'' then 32 else if t = ''oltp'' then 64 else if t = ''dw'' then 128
         else if t = ''desktop'' then 3 else 32)"
  unfolding config_checkpoint_segments_def by (rule getitem_valid [OF assms])

lemma min_wal_size_valid:
  assumes "t \<in> set db_types"
  shows "config_min_wal_size t =
    Inr (if t = ''web'' then 1024 * 1024 else if t = ''oltp'' then 2048 * 1024
         else if t = ''dw'' then 4096 * 1024 else if t = ''desktop'' then 100 * 1024
         else 1024 * 1024)"
  using assms
  by (cases rule: db_types_cases) (simp_all add: config_min_wal_size_def getitem_def MB_def KB_def)

lemma max_wal_size_valid:
  assumes "t \<in> set db_types"
  shows "config_max_wal_size t =
    Inr (if t = ''web'' then 2048 * 1024 else if t = ''oltp'' then 4096 * 1024
         else if t = ''dw'' then 8192 * 1024 else if t = ''desktop'' then 100 * 1024
         else 2048 * 1024)"
  using assms
  by (cases rule: db_types_cases) (simp_all add: config_max_wal_size_def getitem_def MB_def KB_def)

lemma checkpoint_completion_target_valid:
  assumes "t \<in> set db_types"
  shows "config_checkpoint_completion_target t =
    Inr (if t = ''web'' then PTenths 7 else if t = ''oltp'' then PTenths 9
         else if t = ''dw'' then PTenths 9 else if t = ''desktop'' then PTenths 5
         else PTenths 9)"
  unfolding config_checkpoint_completion_target_def by (rule getitem_valid [OF assms])

lemma default_statistics_target_valid:
  assumes "t \<in> set db_types"
  shows "config_default_statistics_target t =
    Inr (if t = ''web'' then 100 else if t = ''oltp'' then 100 else if t = ''dw'' then 500
         else if t = ''desktop'' then 100 else 100)"
  unfolding config_default_statistics_target_def by (rule getitem_valid [OF assms])

lemma set_memory_low:
  assumes "m < 268435456"
  shows "set_memory os t m mc c = Inr c"
  using assms by (simp add: set_memory_def MB_def)

lemma set_memory_high:
  assumes "t \<in> set db_types" and "268435456 \<le> m" and "mc \<noteq> 0"
  obtains sb ecs wm mwm where
    "config_shared_buffers os t (m div 1024) = Inr sb"
    "config_effective_cache_size t (m div 1024) = Inr ecs"
    "config_work_mem t (m div 1024) sb mc = Inr wm"
    "config_maintenance_work_mem t (m div 1024) = Inr mwm"
    "set_memory os t m mc c =
       Inr (c(''shared_buffers'' \<mapsto> PInt sb, ''effective_cache_size'' \<mapsto> PInt ecs,
              ''work_mem'' \<mapsto> PInt wm, ''maintenance_work_mem'' \<mapsto> PInt mwm))"
proof -
  obtain sb where sb: "config_shared_buffers os t (m div 1024) = Inr sb"
    using shared_buffers_valid [OF assms(1)] by blast
  obtain ecs where ecs: "config_effective_cache_size t (m div 1024) = Inr ecs"
    using effective_cache_size_valid [OF assms(1)] by blast
  obtain wm where wm: "config_work_mem t (m div 1024) sb mc = Inr wm"
    using work_mem_valid [OF assms(1) assms(3)] by blast
  obtain mwm where mwm: "config_maintenance_work_mem t (m div 1024) = Inr mwm"
    using maintenance_work_mem_valid [OF assms(1)] by blast
  have "set_memory os t m mc c =
       Inr (c(''shared_buffers'' \<mapsto> PInt sb, ''effective_cache_size'' \<mapsto> PInt ecs,
              ''work_mem'' \<mapsto> PInt wm, ''maintenance_work_mem'' \<mapsto> PInt mwm))"
    using assms(2) by (simp add: set_memory_def MB_def KB_def sb ecs wm mwm)
  with sb ecs wm mwm show thesis by (rule that)
qed

lemma set_wal_size_old:
  assumes "t \<in> set db_types" and "v < 9.5"
  obtains cs where
    "config_checkpoint_segments t = Inr cs"
    "set_wal_size v t c = Inr (c(''checkpoint_segments'' \<mapsto> PInt cs))"
proof -
  obtain cs where cs: "config_checkpoint_segments t = Inr cs"
    using checkpoint_segments_valid [OF assms(1)] by blast
  have "set_wal_size v t c = Inr (c(''checkpoint_segments'' \<mapsto> PInt cs))"
    using assms(2) by (simp add: set_wal_size_def cs)
  with cs show thesis by (rule that)
qed

lemma set_wal_size_new:
  assumes "t \<in> set db_types" and "\<not> v < 9.5"
  obtains lo hi where
    "config_min_wal_size t = Inr lo"
    "config_max_wal_size t = Inr hi"
    "set_wal_size v t c = Inr (c(''min_wal_size'' \<mapsto> PInt lo, ''max_wal_size'' \<mapsto> PInt hi))"
proof -
  obtain lo where lo: "config_min_wal_size t = Inr lo"
    using min_wal_size_valid [OF assms(1)] by blast
  obtain hi where hi: "config_max_wal_size t = Inr hi"
    using max_wal_size_valid [OF assms(1)] by blast
  have "set_wal_size v t c = Inr (c(''min_wal_size'' \<mapsto> PInt lo, ''max_wal_size'' \<mapsto> PInt hi))"
    using assms(2) by (simp add: set_wal_size_def lo hi)
  with lo hi show thesis by (rule that)
qed

lemma set_wal_buffers_other:
  assumes "k \<noteq> ''wal_buffers''"
  shows "set_wal_buffers c k = c k"
  using assms by (simp add: set_wal_buffers_def split: option.split pyval.split)

lemma set_wal_buffers_absent:
  assumes "c ''shared_buffers'' = None"
  shows "set_wal_buffers c = c"
  using assms by (simp add: set_wal_buffers_def)

lemma set_wal_buffers_present:
  assumes "c ''shared_buffers'' = Some (PInt sb)"
  shows "set_wal_buffers c ''wal_buffers'' = Some (PInt (config_wal_buffers (3 * sb div 100)))"
  using assms by (simp add: set_wal_buffers_def)

text \<open>The stages of \<open>postgres_config\<close> at a known workload: none of them fails.\<close>

lemma postgres_config_valid:
  assumes "t \<in> set db_types"
  obtains conn c1 c2 cct dst where
    "config_max_connections t mc = Inr conn"
    "set_memory os t m conn [''max_connections'' \<mapsto> PInt conn] = Inr c1"
    "set_wal_size v t c1 = Inr c2"
    "config_checkpoint_completion_target t = Inr cct"
    "config_default_statistics_target t = Inr dst"
    "postgres_config v os t m mc =
       Inr ((set_wal_buffers (c2(''checkpoint_completion_target'' \<mapsto> cct)))
              (''default_statistics_target'' \<mapsto> PInt dst))"
proof -
  obtain conn where conn: "config_max_connections t mc = Inr conn"
    using max_connections_valid [OF assms] by blast
  have nz: "conn \<noteq> 0" using conn by (rule max_connections_nonzero)
  obtain c1 where c1: "set_memory os t m conn [''max_connections'' \<mapsto> PInt conn] = Inr c1"
  proof (cases "m < 268435456")
    case True
    then show ?thesis using that set_memory_low by blast
  next
    case False
    then have "268435456 \<le> m" by simp
    from set_memory_high [OF assms this nz] show ?thesis using that by metis
  qed
  obtain c2 where c2: "set_wal_size v t c1 = Inr c2"
  proof (cases "v < 9.5")
    case True
    from set_wal_size_old [OF assms True] show ?thesis using that by metis
  next
    case False
    from set_wal_size_new [OF assms False] show ?thesis using that by metis
  qed
  obtain cct where cct: "config_checkpoint_completion_target t = Inr cct"
    using checkpoint_completion_target_valid [OF assms] by blast
  obtain dst where dst: "config_default_statistics_target t = Inr dst"
    using default_statistics_target_valid [OF assms] by blast
  have "postgres_config v os t m mc =
       Inr ((set_wal_buffers (c2(''checkpoint_completion_target'' \<mapsto> cct)))
              (''default_statistics_target'' \<mapsto> PInt dst))"
    by (simp add: postgres_config_def conn c1 c2 cct dst)
  with conn c1 c2 cct dst show thesis by (rule that)
qed

subsection \<open>The keys of the finished dictionary\<close>

lemma set_memory_frame:
  assumes "set_memory os t m mc c = Inr c'"
    and "k \<noteq> ''shared_buffers''" and "k \<noteq> ''effective_cache_size''"
    and "k \<noteq> ''work_mem''" and "k \<noteq> ''maintenance_work_mem''"
  shows "c' k = c k"
  using assms
  by (auto simp add: set_memory_def Let_def and_then_def split: if_splits sum.splits)

lemma set_wal_size_frame:
  assumes "set_wal_size v t c = Inr c'"
    and "k \<noteq> ''checkpoint_segments''" and "k \<noteq> ''min_wal_size''" and "k \<noteq> ''max_wal_size''"
  shows "c' k = c k"
  using assms
  by (auto simp add: set_wal_size_def and_then_def split: if_splits sum.splits)

lemma postgres_settings_config:
  assumes "postgres_config v os t m mc = Inr c"
  shows "postgres_settings v os t m mc = Inr (\<lambda>k. map_option (format_value k) (c k))"
  using assms by (simp add: postgres_settings_def)

lemma final_fixed:
  assumes "t \<in> set db_types"
  obtains config conn cct dst where
    "postgres_config v os t m mc = Inr config"
    "config_max_connections t mc = Inr conn"
    "config_checkpoint_completion_target t = Inr cct"
    "config_default_statistics_target t = Inr dst"
    "config ''max_connections'' = Some (PInt conn)"
    "config ''checkpoint_completion_target'' = Some cct"
    "config ''default_statistics_target'' = Some (PInt dst)"
proof -
  obtain conn c1 c2 cct dst where
    conn: "config_max_connections t mc = Inr conn" and
    c1: "set_memory os t m conn [''max_connections'' \<mapsto> PInt conn] = Inr c1" and
    c2: "set_wal_size v t c1 = Inr c2" and
    cct: "config_checkpoint_completion_target t = Inr cct" and
    dst: "config_default_statistics_target t = Inr dst" and
    pc: "postgres_config v os t m mc =
       Inr ((set_wal_buffers (c2(''checkpoint_completion_target'' \<mapsto> cct)))
              (''default_statistics_target'' \<mapsto> PInt dst))"
    by (rule postgres_config_valid [OF assms, of mc os m v]) (rule that)
  let ?F = "(set_wal_buffers (c2(''checkpoint_completion_target'' \<mapsto> cct)))
              (''default_statistics_target'' \<mapsto> PInt dst)"
  have "c1 ''max_connections'' = Some (PInt conn)"
    using set_memory_frame [OF c1, of "''max_connections''"] by simp
  then have "c2 ''max_connections'' = Some (PInt conn)"
    using set_wal_size_frame [OF c2, of "''max_connections''"] by simp
  then have k1: "?F ''max_connections'' = Some (PInt conn)"
    by (simp add: set_wal_buffers_other)
  have k2: "?F ''checkpoint_completion_target'' = Some cct"
    by (simp add: set_wal_buffers_other)
  have k3: "?F ''default_statistics_target'' = Some (PInt dst)"
    by simp
  from pc conn cct dst k1 k2 k3 show thesis by (rule that)
qed


lemma final_memory_high:
  assumes "t \<in> set db_types" and "268435456 \<le> m"
  obtains config conn sb ecs wm mwm where
    "postgres_config v os t m mc = Inr config"
    "config_max_connections t mc = Inr conn"
    "config_shared_buffers os t (m div 1024) = Inr sb"
    "config_effective_cache_size t (m div 1024) = Inr ecs"
    "config_work_mem t (m div 1024) sb conn = Inr wm"
    "config_maintenance_work_mem t (m div 1024) = Inr mwm"
    "config ''shared_buffers'' = Some (PInt sb)"
    "config ''effective_cache_size'' = Some (PInt ecs)"
    "config ''work_mem'' = Some (PInt wm)"
    "config ''maintenance_work_mem'' = Some (PInt mwm)"
    "config ''wal_buffers'' = Some (PInt (config_wal_buffers (3 * sb div 100)))"
proof -
  obtain conn c1 c2 cct dst where
    conn: "config_max_connections t mc = Inr conn" and
    c1: "set_memory os t m conn [''max_connections'' \<mapsto> PInt conn] = Inr c1" and
    c2: "set_wal_size v t c1 = Inr c2" and
    pc: "postgres_config v os t m mc =
       Inr ((set_wal_buffers (c2(''checkpoint_completion_target'' \<mapsto> cct)))
              (''default_statistics_target'' \<mapsto> PInt dst))"
    by (rule postgres_config_valid [OF assms(1), of mc os m v]) (rule that)
  let ?F = "(set_wal_buffers (c2(''checkpoint_completion_target'' \<mapsto> cct)))
              (''default_statistics_target'' \<mapsto> PInt dst)"
  have nz: "conn \<noteq> 0" using conn by (rule max_connections_nonzero)
  obtain sb ecs wm mwm where
    sb: "config_shared_buffers os t (m div 1024) = Inr sb" and
    ecs: "config_effective_cache_size t (m div 1024) = Inr ecs" and
    wm: "config_work_mem t (m div 1024) sb conn = Inr wm" and
    mwm: "config_maintenance_work_mem t (m div 1024) = Inr mwm" and
    sm: "set_memory os t m conn [''max_connections'' \<mapsto> PInt conn] =
       Inr ([''max_connections'' \<mapsto> PInt conn, ''shared_buffers'' \<mapsto> PInt sb,
             ''effective_cache_size'' \<mapsto> PInt ecs, ''work_mem'' \<mapsto> PInt wm,
             ''maintenance_work_mem'' \<mapsto> PInt mwm])"
    by (rule set_memory_high [OF assms(1) assms(2) nz, of os "[''max_connections'' \<mapsto> PInt conn]"]) (rule that)
  from c1 sm have c1_eq: "c1 = [''max_connections'' \<mapsto> PInt conn,
      ''shared_buffers'' \<mapsto> PInt sb, ''effective_cache_size'' \<mapsto> PInt ecs,
      ''work_mem'' \<mapsto> PInt wm, ''maintenance_work_mem'' \<mapsto> PInt mwm]"
    by simp
  have a1: "c2 ''shared_buffers'' = Some (PInt sb)"
    using set_wal_size_frame [OF c2, of "''shared_buffers''"] by (simp add: c1_eq)
  have a2: "c2 ''effective_cache_size'' = Some (PInt ecs)"
    using set_wal_size_frame [OF c2, of "''effective_cache_size''"] by (simp add: c1_eq)
  have a3: "c2 ''work_mem'' = Some (PInt wm)"
    using set_wal_size_frame [OF c2, of "''work_mem''"] by (simp add: c1_eq)
  have a4: "c2 ''maintenance_work_mem'' = Some (PInt mwm)"
    using set_wal_size_frame [OF c2, of "''maintenance_work_mem''"] by (simp add: c1_eq)
  have k1: "?F ''shared_buffers'' = Some (PInt sb)"
    using a1 by (simp add: set_wal_buffers_other)
  have k2: "?F ''effective_cache_size'' = Some (PInt ecs)"
    using a2 by (simp add: set_wal_buffers_other)
  have k3: "?F ''work_mem'' = Some (PInt wm)"
    using a3 by (simp add: set_wal_buffers_other)
  have k4: "?F ''maintenance_work_mem'' = Some (PInt mwm)"
    using a4 by (simp add: set_wal_buffers_other)
  have "(c2(''checkpoint_completion_target'' \<mapsto> cct)) ''shared_buffers'' = Some (PInt sb)"
    using a1 by simp
  then have k5: "?F ''wal_buffers'' = Some (PInt (config_wal_buffers (3 * sb div 100)))"
    by (simp add: set_wal_buffers_present)
  from pc conn sb ecs wm mwm k1 k2 k3 k4 k5 show thesis by (rule that)
qed

lemma final_memory_low:
  assumes "t \<in> set db_types" and "m < 268435456"
  obtains config where
    "postgres_config v os t m mc = Inr config"
    "config ''shared_buffers'' = None"
    "config ''effective_cache_size'' = None"
    "config ''work_mem'' = None"
    "config ''maintenance_work_mem'' = None"
    "config ''wal_buffers'' = None"
proof -
  obtain conn c1 c2 cct dst where
    c1: "set_memory os t m conn [''max_connections'' \<mapsto> PInt conn] = Inr c1" and
    c2: "set_wal_size v t c1 = Inr c2" and
    pc: "postgres_config v os t m mc =
       Inr ((set_wal_buffers (c2(''checkpoint_completion_target'' \<mapsto> cct)))
              (''default_statistics_target'' \<mapsto> PInt dst))"
    by (rule postgres_config_valid [OF assms(1), of mc os m v]) (rule that)
  let ?X = "c2(''checkpoint_completion_target'' \<mapsto> cct)"
  let ?F = "(set_wal_buffers ?X)(''default_statistics_target'' \<mapsto> PInt dst)"
  from c1 have c1_eq: "c1 = [''max_connections'' \<mapsto> PInt conn]"
    by (simp add: set_memory_low [OF assms(2)])
  have a1: "c2 ''shared_buffers'' = None"
    using set_wal_size_frame [OF c2, of "''shared_buffers''"] by (simp add: c1_eq)
  have a2: "c2 ''effective_cache_size'' = None"
    using set_wal_size_frame [OF c2, of "''effective_cache_size''"] by (simp add: c1_eq)
  have a3: "c2 ''work_mem'' = None"
    using set_wal_size_frame [OF c2, of "''work_mem''"] by (simp add: c1_eq)
  have a4: "c2 ''maintenance_work_mem'' = None"
    using set_wal_size_frame [OF c2, of "''maintenance_work_mem''"] by (simp add: c1_eq)
  have a5: "c2 ''wal_buffers'' = None"
    using set_wal_size_frame [OF c2, of "''wal_buffers''"] by (simp add: c1_eq)
  have "?X ''shared_buffers'' = None" using a1 by simp
  then have same: "set_wal_buffers ?X = ?X" by (rule set_wal_buffers_absent)
  have k1: "?F ''shared_buffers'' = None" using a1 by (simp add: same)
  have k2: "?F ''effective_cache_size'' = None" using a2 by (simp add: same)
  have k3: "?F ''work_mem'' = None" using a3 by (simp add: same)
  have k4: "?F ''maintenance_work_mem'' = None" using a4 by (simp add: same)
  have k5: "?F ''wal_buffers'' = None" using a5 by (simp add: same)
  from pc k1 k2 k3 k4 k5 show thesis by (rule that)
qed

lemma final_wal_old:
  assumes "t \<in> set db_types" and "v < 9.5"
  obtains config cs where
    "postgres_config v os t m mc = Inr config"
    "config_checkpoint_segments t = Inr cs"
    "config ''checkpoint_segments'' = Some (PInt cs)"
    "config ''min_wal_size'' = None"
    "config ''max_wal_size'' = None"
proof -
  obtain conn c1 c2 cct dst where
    c1: "set_memory os t m conn [''max_connections'' \<mapsto> PInt conn] = Inr c1" and
    c2: "set_wal_size v t c1 = Inr c2" and
    pc: "postgres_config v os t m mc =
       Inr ((set_wal_buffers (c2(''checkpoint_completion_target'' \<mapsto> cct)))
              (''default_statistics_target'' \<mapsto> PInt dst))"
    by (rule postgres_config_valid [OF assms(1), of mc os m v]) (rule that)
  let ?F = "(set_wal_buffers (c2(''checkpoint_completion_target'' \<mapsto> cct)))
              (''default_statistics_target'' \<mapsto> PInt dst)"
  obtain cs where
    cs: "config_checkpoint_segments t = Inr cs" and
    sw: "set_wal_size v t c1 = Inr (c1(''checkpoint_segments'' \<mapsto> PInt cs))"
    by (rule set_wal_size_old [OF assms, of c1]) (rule that)
  from c2 sw have c2_eq: "c2 = c1(''checkpoint_segments'' \<mapsto> PInt cs)" by simp
  have b1: "c1 ''min_wal_size'' = None"
    using set_memory_frame [OF c1, of "''min_wal_size''"] by simp
  have b2: "c1 ''max_wal_size'' = None"
    using set_memory_frame [OF c1, of "''max_wal_size''"] by simp
  have k1: "?F ''checkpoint_segments'' = Some (PInt cs)"
    by (simp add: set_wal_buffers_other c2_eq)
  have k2: "?F ''min_wal_size'' = None"
    using b1 by (simp add: set_wal_buffers_other c2_eq)
  have k3: "?F ''max_wal_size'' = None"
    using b2 by (simp add: set_wal_buffers_other c2_eq)
  from pc cs k1 k2 k3 show thesis by (rule that)
qed

lemma final_wal_new:
  assumes "t \<in> set db_types" and "\<not> v < 9.5"
  obtains config lo hi where
    "postgres_config v os t m mc = Inr config"
    "config_min_wal_size t = Inr lo"
    "config_max_wal_size t = Inr hi"
    "config ''checkpoint_segments'' = None"
    "config ''min_wal_size'' = Some (PInt lo)"
    "config ''max_wal_size'' = Some (PInt hi)"
proof -
  obtain conn c1 c2 cct dst where
    c1: "set_memory os t m conn [''max_connections'' \<mapsto> PInt conn] = Inr c1" and
    c2: "set_wal_size v t c1 = Inr c2" and
    pc: "postgres_config v os t m mc =
       Inr ((set_wal_buffers (c2(''checkpoint_completion_target'' \<mapsto> cct)))
              (''default_statistics_target'' \<mapsto> PInt dst))"
    by (rule postgres_config_valid [OF assms(1), of mc os m v]) (rule that)
  let ?F = "(set_wal_buffers (c2(''checkpoint_completion_target'' \<mapsto> cct)))
              (''default_statistics_target'' \<mapsto> PInt dst)"
  obtain lo hi where
    lo: "config_min_wal_size t = Inr lo" and
    hi: "config_max_wal_size t = Inr hi" and
    sw: "set_wal_size v t c1 =
      Inr (c1(''min_wal_size'' \<mapsto> PInt lo, ''max_wal_size'' \<mapsto> PInt hi))"
    by (rule set_wal_size_new [OF assms, of c1]) (rule that)
  from c2 sw have c2_eq: "c2 = c1(''min_wal_size'' \<mapsto> PInt lo, ''max_wal_size'' \<mapsto> PInt hi)"
    by simp
  have b1: "c1 ''checkpoint_segments'' = None"
    using set_memory_frame [OF c1, of "''checkpoint_segments''"] by simp
  have k1: "?F ''checkpoint_segments'' = None"
    using b1 by (simp add: set_wal_buffers_other c2_eq)
  have k2: "?F ''min_wal_size'' = Some (PInt lo)"
    by (simp add: set_wal_buffers_other c2_eq)
  have k3: "?F ''max_wal_size'' = Some (PInt hi)"
    by (simp add: set_wal_buffers_other c2_eq)
  from pc lo hi k1 k2 k3 show thesis by (rule that)
qed

subsection \<open>The floors of work\_mem\<close>

text \<open>
  The floor of a quotient of integers divided once more is the iterated floor division, so
  the float and the integer reading of \<^verbatim>\<open>work_mem\<close> store the same number.
\<close>

lemma work_mem_floor:
  assumes "0 < k"
  shows "\<lfloor>(of_int a / of_int b :: rat) / of_int k\<rfloor> = a div b div k"
proof -
  have "(of_int a / of_int b :: rat) / of_int k = of_int a / of_int (b * k)"
    by simp
  then have "\<lfloor>(of_int a / of_int b :: rat) / of_int k\<rfloor> = a div (b * k)"
    by (simp only: floor_divide_of_int_eq)
  also have "\<dots> = a div b div k"
    using assms by (simp add: zdiv_zmult2_eq)
  finally show ?thesis .
qed

lemma work_mem_as_div:
  assumes "t \<in> set db_types" and "mc \<noteq> 0"
  shows "config_work_mem t mk sb mc =
    Inr (if t = ''web'' \<or> t = ''oltp'' then (mk - sb) div (mc * 3)
         else if t = ''desktop'' then (mk - sb) div (mc * 3) div 6
         else (mk - sb) div (mc * 3) div 2)"
proof -
  have f1: "\<lfloor>(of_int (mk - sb) / of_int (mc * 3) :: rat)\<rfloor> = (mk - sb) div (mc * 3)"
    by (rule floor_divide_of_int_eq)
  have f2: "\<lfloor>(of_int (mk - sb) / of_int (mc * 3) :: rat) / 2\<rfloor> = (mk - sb) div (mc * 3) div 2"
    using work_mem_floor [of 2 "mk - sb" "mc * 3"] by simp
  have f6: "\<lfloor>(of_int (mk - sb) / of_int (mc * 3) :: rat) / 6\<rfloor> = (mk - sb) div (mc * 3) div 6"
    using work_mem_floor [of 6 "mk - sb" "mc * 3"] by simp
  from assms(1) show ?thesis
  proof (cases rule: db_types_cases)
    case 1
    then show ?thesis using assms(2) f1
      by (simp add: config_work_mem_def Let_def getitem_def del: of_int_mult of_int_diff)
  next
    case 2
    then show ?thesis using assms(2) f1
      by (simp add: config_work_mem_def Let_def getitem_def del: of_int_mult of_int_diff)
  next
    case 3
    then show ?thesis using assms(2) f2
      by (simp add: config_work_mem_def Let_def getitem_def del: of_int_mult of_int_diff)
  next
    case 4
    then show ?thesis using assms(2) f6
      by (simp add: config_work_mem_def Let_def getitem_def del: of_int_mult of_int_diff)
  next
    case 5
    then show ?thesis using assms(2) f2
      by (simp add: config_work_mem_def Let_def getitem_def del: of_int_mult of_int_diff)
  qed
qed

section \<open>The claims\<close>






text \<open>
  C3. For each of the five workloads, \<^verbatim>\<open>max_connections\<close>,
  \<^verbatim>\<open>checkpoint_completion_target\<close>, \<^verbatim>\<open>default_statistics_target\<close> and the WAL keys
  of the version are always present; below 256 MiB of memory none of
  \<^verbatim>\<open>shared_buffers\<close>, \<^verbatim>\<open>effective_cache_size\<close>, \<^verbatim>\<open>work_mem\<close>,
  \<^verbatim>\<open>maintenance_work_mem\<close> is present, and from 256 MiB on all four are.
\<close>

theorem low_memory_guard:
  assumes "db_type \<in> set db_types"
  shows "\<exists>config.
      postgres_config db_version os_type db_type total_memory max_connections = Inr config
      \<and> postgres_settings db_version os_type db_type total_memory max_connections =
          Inr (\<lambda>k. map_option (format_value k) (config k))
      \<and> config ''max_connections'' \<noteq> None
      \<and> config ''checkpoint_completion_target'' \<noteq> None
      \<and> config ''default_statistics_target'' \<noteq> None
      \<and> (if db_version < 9.5 then config ''checkpoint_segments'' \<noteq> None
          else config ''min_wal_size'' \<noteq> None \<and> config ''max_wal_size'' \<noteq> None)
      \<and> (if total_memory < 268435456
          then config ''shared_buffers'' = None \<and> config ''effective_cache_size'' = None
               \<and> config ''work_mem'' = None \<and> config ''maintenance_work_mem'' = None
          else config ''shared_buffers'' \<noteq> None \<and> config ''effective_cache_size'' \<noteq> None
               \<and> config ''work_mem'' \<noteq> None \<and> config ''maintenance_work_mem'' \<noteq> None)"
proof -
  obtain config where
    pc: "postgres_config db_version os_type db_type total_memory max_connections = Inr config" and
    f1: "config ''max_connections'' \<noteq> None" and
    f2: "config ''checkpoint_completion_target'' \<noteq> None" and
    f3: "config ''default_statistics_target'' \<noteq> None"
  proof (rule final_fixed [OF assms, of db_version os_type total_memory max_connections])
    fix config conn cct dst
    assume "postgres_config db_version os_type db_type total_memory max_connections = Inr config"
      and "config ''max_connections'' = Some (PInt conn)"
      and "config ''checkpoint_completion_target'' = Some cct"
      and "config ''default_statistics_target'' = Some (PInt dst)"
    then show thesis using that by simp
  qed
  have wal: "if db_version < 9.5 then config ''checkpoint_segments'' \<noteq> None
             else config ''min_wal_size'' \<noteq> None \<and> config ''max_wal_size'' \<noteq> None"
  proof (cases "db_version < 9.5")
    case True
    obtain config' cs where
      "postgres_config db_version os_type db_type total_memory max_connections = Inr config'"
      "config' ''checkpoint_segments'' = Some (PInt cs)"
      by (rule final_wal_old [OF assms True, of os_type total_memory max_connections])
         (rule that)
    then show ?thesis using True pc by simp
  next
    case False
    obtain config' lo hi where
      "postgres_config db_version os_type db_type total_memory max_connections = Inr config'"
      "config' ''min_wal_size'' = Some (PInt lo)"
      "config' ''max_wal_size'' = Some (PInt hi)"
      by (rule final_wal_new [OF assms False, of os_type total_memory max_connections])
         (rule that)
    then show ?thesis using False pc by simp
  qed
  have mem: "if total_memory < 268435456
      then config ''shared_buffers'' = None \<and> config ''effective_cache_size'' = None
           \<and> config ''work_mem'' = None \<and> config ''maintenance_work_mem'' = None
      else config ''shared_buffers'' \<noteq> None \<and> config ''effective_cache_size'' \<noteq> None
           \<and> config ''work_mem'' \<noteq> None \<and> config ''maintenance_work_mem'' \<noteq> None"
  proof (cases "total_memory < 268435456")
    case True
    obtain config' where
      "postgres_config db_version os_type db_type total_memory max_connections = Inr config'"
      "config' ''shared_buffers'' = None"
      "config' ''effective_cache_size'' = None"
      "config' ''work_mem'' = None"
      "config' ''maintenance_work_mem'' = None"
      by (rule final_memory_low [OF assms True, of db_version os_type max_connections])
         (rule that)
    then show ?thesis using True pc by simp
  next
    case False
    then have big: "268435456 \<le> total_memory" by simp
    obtain config' sb ecs wm mwm where
      "postgres_config db_version os_type db_type total_memory max_connections = Inr config'"
      "config' ''shared_buffers'' = Some (PInt sb)"
      "config' ''effective_cache_size'' = Some (PInt ecs)"
      "config' ''work_mem'' = Some (PInt wm)"
      "config' ''maintenance_work_mem'' = Some (PInt mwm)"
      by (rule final_memory_high [OF assms big, of db_version os_type max_connections])
         (rule that)
    then show ?thesis using False pc by simp
  qed
  from pc postgres_settings_config [OF pc] f1 f2 f3 wal mem show ?thesis by blast
qed

theorem low_memory_guard_witness:
  "''desktop'' \<in> set db_types \<and>
   (\<exists>config.
      postgres_config 9.3 ''linux'' ''desktop'' 134217728 None = Inr config
      \<and> config ''max_connections'' \<noteq> None
      \<and> config ''checkpoint_completion_target'' \<noteq> None
      \<and> config ''default_statistics_target'' \<noteq> None
      \<and> config ''checkpoint_segments'' \<noteq> None
      \<and> config ''shared_buffers'' = None \<and> config ''effective_cache_size'' = None
      \<and> config ''work_mem'' = None \<and> config ''maintenance_work_mem'' = None)"
proof -
  have h: "''desktop'' \<in> set db_types" by (simp add: db_types_def)
  have "\<exists>config.
      postgres_config 9.3 ''linux'' ''desktop'' 134217728 None = Inr config
      \<and> config ''max_connections'' \<noteq> None
      \<and> config ''checkpoint_completion_target'' \<noteq> None
      \<and> config ''default_statistics_target'' \<noteq> None
      \<and> config ''checkpoint_segments'' \<noteq> None
      \<and> config ''shared_buffers'' = None \<and> config ''effective_cache_size'' = None
      \<and> config ''work_mem'' = None \<and> config ''maintenance_work_mem'' = None"
    using low_memory_guard
      [OF h, where db_version = "9.3" and os_type = "''linux''" and total_memory = 134217728
         and max_connections = None]
    by simp (elim exE conjE, intro exI conjI; assumption)
  with h show ?thesis by simp
qed

lemma wal_buffers_small:
  assumes "u \<le> 14336"
  shows "config_wal_buffers u = u"
  using assms by (simp add: config_wal_buffers_def MB_def KB_def)

lemma wal_buffers_near:
  assumes "14336 < u" and "u < 16384"
  shows "config_wal_buffers u = 16384"
  using assms by (simp add: config_wal_buffers_def MB_def KB_def)

lemma wal_buffers_large:
  assumes "16384 \<le> u"
  shows "config_wal_buffers u = 16384"
  using assms by (simp add: config_wal_buffers_def MB_def KB_def)

text \<open>
  C4, as amended. For each of the five workloads, \<^verbatim>\<open>wal_buffers\<close> is absent exactly
  when the memory is below 256 MiB. When present it is three hundredths of
  \<^verbatim>\<open>shared_buffers\<close>, floored and capped at 16384 KB, except that a capped value
  strictly between 14336 and 16384 is raised to 16384: it never exceeds 16384 KB, it is
  16384 KB whenever the uncapped value is strictly between 14336 and 16384, and it is the
  uncapped value up to 14336.
\<close>

theorem wal_buffers_rule:
  assumes "db_type \<in> set db_types"
  shows "\<exists>config.
      postgres_config db_version os_type db_type total_memory max_connections = Inr config
      \<and> (config ''wal_buffers'' = None \<longleftrightarrow> total_memory < 268435456)
      \<and> (total_memory \<ge> 268435456 \<longrightarrow>
          (\<exists>shared_buffers wal_buffers.
             config ''shared_buffers'' = Some (PInt shared_buffers)
             \<and> config ''wal_buffers'' = Some (PInt wal_buffers)
             \<and> (let uncapped = 3 * shared_buffers div 100; capped = min uncapped 16384
                in wal_buffers =
                     (if 14336 < capped \<and> capped < 16384 then 16384 else capped)
                   \<and> wal_buffers \<le> 16384
                   \<and> (14336 < uncapped \<and> uncapped < 16384 \<longrightarrow> wal_buffers = 16384)
                   \<and> (uncapped \<le> 14336 \<longrightarrow> wal_buffers = uncapped)
                   \<and> (16384 \<le> uncapped \<longrightarrow> wal_buffers = 16384))))"
proof (cases "total_memory < 268435456")
  case True
  obtain config where
    pc: "postgres_config db_version os_type db_type total_memory max_connections = Inr config" and
    k: "config ''wal_buffers'' = None"
    by (rule final_memory_low [OF assms True, of db_version os_type max_connections])
       (rule that)
  show ?thesis
  proof (intro exI conjI)
    show "postgres_config db_version os_type db_type total_memory max_connections = Inr config"
      by (rule pc)
    show "(config ''wal_buffers'' = None) = (total_memory < 268435456)"
      using True k by simp
    show "268435456 \<le> total_memory \<longrightarrow>
          (\<exists>shared_buffers wal_buffers.
             config ''shared_buffers'' = Some (PInt shared_buffers)
             \<and> config ''wal_buffers'' = Some (PInt wal_buffers)
             \<and> (let uncapped = 3 * shared_buffers div 100; capped = min uncapped 16384
                in wal_buffers =
                     (if 14336 < capped \<and> capped < 16384 then 16384 else capped)
                   \<and> wal_buffers \<le> 16384
                   \<and> (14336 < uncapped \<and> uncapped < 16384 \<longrightarrow> wal_buffers = 16384)
                   \<and> (uncapped \<le> 14336 \<longrightarrow> wal_buffers = uncapped)
                   \<and> (16384 \<le> uncapped \<longrightarrow> wal_buffers = 16384)))"
    proof
      assume "268435456 \<le> total_memory"
      with True have False by simp
      then show "\<exists>shared_buffers wal_buffers.
             config ''shared_buffers'' = Some (PInt shared_buffers)
             \<and> config ''wal_buffers'' = Some (PInt wal_buffers)
             \<and> (let uncapped = 3 * shared_buffers div 100; capped = min uncapped 16384
                in wal_buffers =
                     (if 14336 < capped \<and> capped < 16384 then 16384 else capped)
                   \<and> wal_buffers \<le> 16384
                   \<and> (14336 < uncapped \<and> uncapped < 16384 \<longrightarrow> wal_buffers = 16384)
                   \<and> (uncapped \<le> 14336 \<longrightarrow> wal_buffers = uncapped)
                   \<and> (16384 \<le> uncapped \<longrightarrow> wal_buffers = 16384))"
        by (rule FalseE)
    qed
  qed
next
  case False
  then have big: "268435456 \<le> total_memory" by simp
  obtain config sb where
    pc: "postgres_config db_version os_type db_type total_memory max_connections = Inr config" and
    k1: "config ''shared_buffers'' = Some (PInt sb)" and
    k2: "config ''wal_buffers'' = Some (PInt (config_wal_buffers (3 * sb div 100)))"
    by (rule final_memory_high [OF assms big, of db_version os_type max_connections])
       (rule that)
  show ?thesis
  proof (intro exI conjI impI)
    show "postgres_config db_version os_type db_type total_memory max_connections = Inr config"
      by (rule pc)
    show "(config ''wal_buffers'' = None) = (total_memory < 268435456)"
      using False k2 by simp
    show "config ''shared_buffers'' = Some (PInt sb)"
      by (rule k1)
    show "config ''wal_buffers'' = Some (PInt (config_wal_buffers (3 * sb div 100)))"
      by (rule k2)
    show "let uncapped = 3 * sb div 100; capped = min uncapped 16384
          in config_wal_buffers (3 * sb div 100) =
               (if 14336 < capped \<and> capped < 16384 then 16384 else capped)
             \<and> config_wal_buffers (3 * sb div 100) \<le> 16384
             \<and> (14336 < uncapped \<and> uncapped < 16384 \<longrightarrow>
                  config_wal_buffers (3 * sb div 100) = 16384)
             \<and> (uncapped \<le> 14336 \<longrightarrow> config_wal_buffers (3 * sb div 100) = uncapped)
             \<and> (16384 \<le> uncapped \<longrightarrow> config_wal_buffers (3 * sb div 100) = 16384)"
    proof (cases "3 * sb div 100 \<le> 14336")
      case True
      then show ?thesis
        by (simp add: wal_buffers_small Let_def)
    next
      case False
      show ?thesis
      proof (cases "3 * sb div 100 < 16384")
        case True
        with False show ?thesis
          by (simp add: wal_buffers_near Let_def)
      next
        case False
        then show ?thesis
          by (simp add: wal_buffers_large Let_def)
      qed
    qed
  qed
qed

theorem wal_buffers_rule_witness:
  "''web'' \<in> set db_types \<and> (268435456::int) \<le> 2048000000 \<and>
   (\<exists>config.
      postgres_config 9.6 ''linux'' ''web'' 2048000000 None = Inr config
      \<and> config ''shared_buffers'' = Some (PInt 500000)
      \<and> config ''wal_buffers'' = Some (PInt 16384))"
proof -
  have h: "''web'' \<in> set db_types" by (simp add: db_types_def)
  have m: "(268435456::int) \<le> 2048000000" by simp
  obtain config where
    pc: "postgres_config 9.6 ''linux'' ''web'' 2048000000 None = Inr config" and
    r: "(268435456::int) \<le> 2048000000 \<longrightarrow>
          (\<exists>shared_buffers wal_buffers.
             config ''shared_buffers'' = Some (PInt shared_buffers)
             \<and> config ''wal_buffers'' = Some (PInt wal_buffers)
             \<and> (let uncapped = 3 * shared_buffers div 100; capped = min uncapped 16384
                in wal_buffers =
                     (if 14336 < capped \<and> capped < 16384 then 16384 else capped)
                   \<and> wal_buffers \<le> 16384
                   \<and> (14336 < uncapped \<and> uncapped < 16384 \<longrightarrow> wal_buffers = 16384)
                   \<and> (uncapped \<le> 14336 \<longrightarrow> wal_buffers = uncapped)
                   \<and> (16384 \<le> uncapped \<longrightarrow> wal_buffers = 16384)))"
    using wal_buffers_rule
      [OF h, where db_version = "9.6" and os_type = "''linux''" and total_memory = 2048000000
         and max_connections = None]
    by (elim exE conjE) (rule that)
  from r m have "\<exists>shared_buffers wal_buffers.
             config ''shared_buffers'' = Some (PInt shared_buffers)
             \<and> config ''wal_buffers'' = Some (PInt wal_buffers)
             \<and> (let uncapped = 3 * shared_buffers div 100; capped = min uncapped 16384
                in wal_buffers =
                     (if 14336 < capped \<and> capped < 16384 then 16384 else capped)
                   \<and> wal_buffers \<le> 16384
                   \<and> (14336 < uncapped \<and> uncapped < 16384 \<longrightarrow> wal_buffers = 16384)
                   \<and> (uncapped \<le> 14336 \<longrightarrow> wal_buffers = uncapped)
                   \<and> (16384 \<le> uncapped \<longrightarrow> wal_buffers = 16384))"
    by (rule mp)
  then obtain sb wb where
    k1: "config ''shared_buffers'' = Some (PInt sb)" and
    k2: "config ''wal_buffers'' = Some (PInt wb)" and
    v: "wb = (if 14336 < min (3 * sb div 100) 16384 \<and> min (3 * sb div 100) 16384 < 16384
              then 16384 else min (3 * sb div 100) 16384)"
    unfolding Let_def by (elim exE conjE) (rule that)
  obtain config' sb' where
    pc': "postgres_config 9.6 ''linux'' ''web'' 2048000000 None = Inr config'" and
    sb': "config_shared_buffers ''linux'' ''web'' (2048000000 div 1024) = Inr sb'" and
    k1': "config' ''shared_buffers'' = Some (PInt sb')"
    by (rule final_memory_high [OF h m, of "9.6" "''linux''" None]) (rule that)
  have "sb' = 500000"
    using sb' unfolding shared_buffers_valid [OF h] by simp
  with pc pc' k1 k1' have sb: "sb = 500000" by simp
  have wb: "wb = 16384" unfolding v sb by simp
  from h m pc k1 k2 show ?thesis unfolding sb wb by blast
qed

text \<open>
  C4 as it is written asks for the capped value everywhere, also inside the window. With
  2048000000 bytes for a web workload \<^verbatim>\<open>shared_buffers\<close> is 500000 KB, three
  hundredths of it are 15000 KB, below the cap, and line 250 stores 16384.
\<close>

theorem wal_buffers_cap_counterexample:
  "(case postgres_config 9.6 ''linux'' ''web'' 2048000000 None of
      Inl e \<Rightarrow> False
    | Inr config \<Rightarrow>
        config ''shared_buffers'' = Some (PInt 500000)
        \<and> config ''wal_buffers'' = Some (PInt 16384)
        \<and> config ''wal_buffers'' \<noteq> Some (PInt (min (3 * 500000 div 100) 16384)))"
proof -
  have h: "''web'' \<in> set db_types" by (simp add: db_types_def)
  have m: "(268435456::int) \<le> 2048000000" by simp
  obtain config sb where
    pc: "postgres_config 9.6 ''linux'' ''web'' 2048000000 None = Inr config" and
    sb: "config_shared_buffers ''linux'' ''web'' (2048000000 div 1024) = Inr sb" and
    k1: "config ''shared_buffers'' = Some (PInt sb)" and
    k2: "config ''wal_buffers'' = Some (PInt (config_wal_buffers (3 * sb div 100)))"
    by (rule final_memory_high [OF h m, of "9.6" "''linux''" None]) (rule that)
  have sb_eq: "sb = 500000"
    using sb unfolding shared_buffers_valid [OF h] by simp
  have wb: "config_wal_buffers (3 * 500000 div 100) = 16384"
    by (rule wal_buffers_near) simp_all
  show ?thesis
    using k1 k2 unfolding pc sb_eq wb by simp
qed

text \<open>
  C5. For each of the five workloads and at least 256 MiB of memory,
  \<^verbatim>\<open>maintenance_work_mem\<close> is the smaller of 2097152 KB and a sixteenth of the memory
  in KB (an eighth for dw); whatever the input, a value stored under that key never
  exceeds 2097152 KB.
\<close>

theorem maintenance_work_mem_capped:
  assumes "db_type \<in> set db_types"
  shows "\<exists>config.
      postgres_config db_version os_type db_type total_memory max_connections = Inr config
      \<and> (total_memory \<ge> 268435456 \<longrightarrow>
           config ''maintenance_work_mem'' =
             Some (PInt (min 2097152
                (if db_type = ''dw'' then total_memory div 1024 div 8
                 else total_memory div 1024 div 16))))
      \<and> (\<forall>v. config ''maintenance_work_mem'' = Some (PInt v) \<longrightarrow> v \<le> 2097152)"
proof (cases "total_memory < 268435456")
  case True
  obtain config where
    pc: "postgres_config db_version os_type db_type total_memory max_connections = Inr config" and
    k: "config ''maintenance_work_mem'' = None"
    by (rule final_memory_low [OF assms True, of db_version os_type max_connections])
       (rule that)
  show ?thesis using True pc k by simp
next
  case False
  then have big: "268435456 \<le> total_memory" by simp
  obtain config mwm where
    pc: "postgres_config db_version os_type db_type total_memory max_connections = Inr config" and
    mwm: "config_maintenance_work_mem db_type (total_memory div 1024) = Inr mwm" and
    k: "config ''maintenance_work_mem'' = Some (PInt mwm)"
    by (rule final_memory_high [OF assms big, of db_version os_type max_connections])
       (rule that)
  define x where
    "x = (if db_type = ''dw'' then total_memory div 1024 div 8 else total_memory div 1024 div 16)"
  have eq: "mwm = min 2097152 x"
    using mwm unfolding maintenance_work_mem_valid [OF assms] x_def by simp
  have le: "mwm \<le> 2097152" unfolding eq by simp
  show ?thesis
    unfolding x_def [symmetric] using pc k eq le by simp
qed

theorem maintenance_work_mem_capped_witness:
  "''dw'' \<in> set db_types \<and> (268435456::int) \<le> 68719476736 \<and>
   (\<exists>config.
      postgres_config 9.6 ''linux'' ''dw'' 68719476736 None = Inr config
      \<and> config ''maintenance_work_mem'' = Some (PInt 2097152))"
proof -
  have h: "''dw'' \<in> set db_types" by (simp add: db_types_def)
  have "\<exists>config.
      postgres_config 9.6 ''linux'' ''dw'' 68719476736 None = Inr config
      \<and> config ''maintenance_work_mem'' = Some (PInt 2097152)"
    using maintenance_work_mem_capped
      [OF h, where db_version = "9.6" and os_type = "''linux''" and total_memory = 68719476736
         and max_connections = None]
    by simp (elim exE conjE, intro exI conjI; assumption)
  with h show ?thesis by simp
qed

lemma format_value_max_connections:
  "format_value ''max_connections'' (PInt n) = str_int n"
  by (simp add: NOT_SIZE_VALUES_def)

text \<open>
  C9. For each of the five workloads, \<^verbatim>\<open>max_connections\<close> is the input when it is
  given and lies between 1 and 9999, and the default of the workload otherwise (web 200,
  oltp 300, dw 20, desktop 5, mixed 100); the function returns in both cases, and the
  value is printed as a bare number.
\<close>

theorem max_connections_or_default:
  assumes "db_type \<in> set db_types"
  shows "let default =
               (if db_type = ''web'' then 200 else if db_type = ''oltp'' then 300
                else if db_type = ''dw'' then 20 else if db_type = ''desktop'' then 5
                else 100);
             conn = (case max_connections of
                       None \<Rightarrow> default
                     | Some n \<Rightarrow> if 1 \<le> n \<and> n \<le> 9999 then n else default)
         in \<exists>config settings.
              postgres_config db_version os_type db_type total_memory max_connections = Inr config
              \<and> config ''max_connections'' = Some (PInt conn)
              \<and> postgres_settings db_version os_type db_type total_memory max_connections =
                  Inr settings
              \<and> settings ''max_connections'' = Some (str_int conn)"
proof -
  obtain config conn where
    pc: "postgres_config db_version os_type db_type total_memory max_connections = Inr config" and
    conn: "config_max_connections db_type max_connections = Inr conn" and
    k: "config ''max_connections'' = Some (PInt conn)"
    by (rule final_fixed [OF assms, of db_version os_type total_memory max_connections])
       (rule that)
  have eq: "conn = (case max_connections of
           None \<Rightarrow>
             if db_type = ''web'' then 200 else if db_type = ''oltp'' then 300
             else if db_type = ''dw'' then 20 else if db_type = ''desktop'' then 5 else 100
         | Some n \<Rightarrow>
             if 1 \<le> n \<and> n \<le> 9999 then n
             else if db_type = ''web'' then 200 else if db_type = ''oltp'' then 300
             else if db_type = ''dw'' then 20 else if db_type = ''desktop'' then 5 else 100)"
    using conn unfolding max_connections_valid [OF assms] by simp
  have s: "(\<lambda>k. map_option (format_value k) (config k)) ''max_connections'' =
      Some (str_int conn)"
    using k by (simp add: format_value_max_connections del: format_value.simps)
  have "\<exists>config settings.
      postgres_config db_version os_type db_type total_memory max_connections = Inr config
      \<and> config ''max_connections'' = Some (PInt conn)
      \<and> postgres_settings db_version os_type db_type total_memory max_connections =
          Inr settings
      \<and> settings ''max_connections'' = Some (str_int conn)"
    using pc k postgres_settings_config [OF pc] s by (intro exI conjI)
  then show ?thesis
    unfolding Let_def eq [symmetric] .
qed

theorem max_connections_or_default_witness:
  "''dw'' \<in> set db_types \<and>
   (\<exists>config settings.
      postgres_config 9.3 ''linux'' ''dw'' 1073741824 (Some 10000) = Inr config
      \<and> config ''max_connections'' = Some (PInt 20)
      \<and> postgres_settings 9.3 ''linux'' ''dw'' 1073741824 (Some 10000) = Inr settings
      \<and> settings ''max_connections'' = Some ''20'') \<and>
   (\<exists>config settings.
      postgres_config 9.3 ''linux'' ''dw'' 1073741824 (Some 50) = Inr config
      \<and> config ''max_connections'' = Some (PInt 50)
      \<and> postgres_settings 9.3 ''linux'' ''dw'' 1073741824 (Some 50) = Inr settings
      \<and> settings ''max_connections'' = Some ''50'')"
proof -
  have h: "''dw'' \<in> set db_types" by (simp add: db_types_def)
  have s20: "str_int 20 = ''20''" by code_simp
  have s50: "str_int 50 = ''50''" by code_simp
  have a: "\<exists>config settings.
      postgres_config 9.3 ''linux'' ''dw'' 1073741824 (Some 10000) = Inr config
      \<and> config ''max_connections'' = Some (PInt 20)
      \<and> postgres_settings 9.3 ''linux'' ''dw'' 1073741824 (Some 10000) = Inr settings
      \<and> settings ''max_connections'' = Some ''20''"
    using max_connections_or_default
      [OF h, where db_version = "9.3" and os_type = "''linux''" and total_memory = 1073741824
         and max_connections = "Some 10000"]
    by (simp add: s20)
  have b: "\<exists>config settings.
      postgres_config 9.3 ''linux'' ''dw'' 1073741824 (Some 50) = Inr config
      \<and> config ''max_connections'' = Some (PInt 50)
      \<and> postgres_settings 9.3 ''linux'' ''dw'' 1073741824 (Some 50) = Inr settings
      \<and> settings ''max_connections'' = Some ''50''"
    using max_connections_or_default
      [OF h, where db_version = "9.3" and os_type = "''linux''" and total_memory = 1073741824
         and max_connections = "Some 50"]
    by (simp add: s50)
  from h a b show ?thesis by (intro conjI)
qed



text \<open>
  C10. The result of \<^verbatim>\<open>kernel_settings\<close> does not depend on its workload argument.
\<close>

theorem kernel_settings_ignores_db_type:
  "kernel_settings db_version os_type t1 total_memory =
   kernel_settings db_version os_type t2 total_memory"
  by (simp add: kernel_settings_def)







lemma digit_val_digit_char:
  assumes "d < 10"
  shows "digit_val (digit_char d) = d"
  using assms by (simp add: digit_val_def digit_char_def)

lemma nat_of_str_snoc:
  "nat_of_str (s @ [c]) = 10 * nat_of_str s + digit_val c"
  by (simp add: nat_of_str_def)

lemma nat_of_str_str_nat:
  "nat_of_str (str_nat n) = n"
proof (induction n rule: str_nat.induct)
  case (1 n)
  show ?case
  proof (cases "n < 10")
    case True
    then show ?thesis
      by (subst str_nat.simps) (simp add: nat_of_str_def digit_val_digit_char)
  next
    case False
    then have "nat_of_str (str_nat (n div 10)) = n div 10" by (rule "1.IH")
    with False show ?thesis
      by (subst str_nat.simps) (simp add: nat_of_str_snoc digit_val_digit_char)
  qed
qed




end
